theory Spec2Isabelle
  imports Main "HOL-Library.Word"
begin

section \<open>Membership classification and version gates of \<^verbatim>\<open>nomad/util.go\<close>\<close>

subsection \<open>Data model\<close>

text \<open>
  \<^verbatim>\<open>net.IP\<close> is a byte slice; \<open>None\<close> is the nil slice, which \<^verbatim>\<open>net.ParseIP\<close>
  returns for a string that is no IP literal.
\<close>

type_synonym IP = "8 word list option"

text \<open>\<^verbatim>\<open>net.TCPAddr\<close>; the source fills \<^verbatim>\<open>IP\<close> and \<^verbatim>\<open>Port\<close> and leaves \<^verbatim>\<open>Zone\<close> empty.\<close>

record TCPAddr =
  TCP_IP :: IP
  TCP_Port :: int
  TCP_Zone :: string

text \<open>\<^verbatim>\<open>serf.MemberStatus\<close>.\<close>

datatype MemberStatus = StatusNone | StatusAlive | StatusLeaving | StatusLeft | StatusFailed

text \<open>
  \<^verbatim>\<open>serf.Member\<close>, with the fields that \<^verbatim>\<open>util.go\<close> reads (the protocol and delegate
  version bytes are never read there). \<^verbatim>\<open>Tags\<close> is a Go map from string to string.
\<close>

record Member =
  Member_Name :: string
  Member_Addr :: IP
  Member_Port :: "16 word"
  Member_Tags :: "string \<rightharpoonup> string"
  Member_Status :: MemberStatus

text \<open>
  \<^verbatim>\<open>serverParts\<close>. The build version is a value of the version library's type, which is
  the type parameter \<open>'v\<close>.
\<close>

record 'v serverParts =
  Name :: string
  ID :: string
  Region :: string
  Datacenter :: string
  Port :: int
  Bootstrap :: bool
  Expect :: int
  MajorVersion :: int
  MinorVersion :: int
  Build :: 'v
  RaftVersion :: int
  Addr :: TCPAddr
  RPCAddr :: TCPAddr
  Status :: MemberStatus

text \<open>
  The functions of \<^verbatim>\<open>util.go\<close> call \<^verbatim>\<open>net.ParseIP\<close> and the package
  \<^verbatim>\<open>github.com/hashicorp/go-version\<close>, whose code is not part of the file. They are
  parameters of the model: a \<open>library\<close> holds the four operations that are called, and
  every theorem below holds for every library.
  \<^item> \<open>ParseIP\<close>: \<^verbatim>\<open>net.ParseIP\<close>, nil (\<open>None\<close>) when the string is no IP literal;
  \<^item> \<open>NewVersion\<close>: \<^verbatim>\<open>version.NewVersion\<close>, \<open>None\<close> when it returns an error;
  \<^item> \<open>LessThan\<close>: \<^verbatim>\<open>v.LessThan(o)\<close>;
  \<^item> \<open>Segments\<close>: \<^verbatim>\<open>v.Segments()\<close>, an int slice (\<open>None\<close> is the nil slice).
\<close>

record 'v library =
  ParseIP :: "string \<Rightarrow> IP"
  NewVersion :: "string \<Rightarrow> 'v option"
  LessThan :: "'v \<Rightarrow> 'v \<Rightarrow> bool"
  Segments :: "'v \<Rightarrow> int list option"

subsection \<open>\<^verbatim>\<open>strconv.Atoi\<close>\<close>

text \<open>
  \<^verbatim>\<open>strconv.Atoi\<close> of the Go standard library, for the 64-bit \<^verbatim>\<open>int\<close>: an optional sign
  \<^verbatim>\<open>+\<close> or \<^verbatim>\<open>-\<close>, then one or more decimal digits and nothing else; a value outside
  \<open>-2^63 .. 2^63 - 1\<close> is a range error. \<open>None\<close> stands for a non-nil error.
\<close>

definition isDigit :: "char \<Rightarrow> bool" where
  "isDigit c = (48 \<le> (of_char c :: nat) \<and> (of_char c :: nat) \<le> 57)"

definition digitVal :: "char \<Rightarrow> int" where
  "digitVal c = int (of_char c) - 48"

definition decimal :: "string \<Rightarrow> int" where
  "decimal ds = foldl (\<lambda>n c. n * 10 + digitVal c) 0 ds"

definition Atoi :: "string \<Rightarrow> int option" where
  "Atoi s =
    (let neg = (s \<noteq> [] \<and> hd s = CHR ''-'');
         ds = (if s \<noteq> [] \<and> (hd s = CHR ''-'' \<or> hd s = CHR ''+'') then tl s else s)
     in if ds = [] \<or> \<not> list_all isDigit ds then None
        else let n = (if neg then - decimal ds else decimal ds)
             in if n < - (2 ^ 63) \<or> 2 ^ 63 - 1 < n then None else Some n)"

subsection \<open>\<^verbatim>\<open>isNomadServer\<close>\<close>

text \<open>\<^verbatim>\<open>m.Tags[k]\<close>: indexing a Go map with a missing key gives the empty string.\<close>

definition tag :: "Member \<Rightarrow> string \<Rightarrow> string" where
  "tag m k = (case Member_Tags m k of None \<Rightarrow> [] | Some v \<Rightarrow> v)"

text \<open>
  The result is the Go pair \<^verbatim>\<open>(bool, *serverParts)\<close>; \<open>None\<close> is the nil pointer. The
  checks come in the order of the source.
\<close>

definition isNomadServer :: "'v library \<Rightarrow> Member \<Rightarrow> bool \<times> 'v serverParts option" where
  "isNomadServer L m =
    (if tag m ''role'' \<noteq> ''nomad'' then (False, None)
     else
       let id = (case Member_Tags m ''id'' of Some v \<Rightarrow> v | None \<Rightarrow> ''unknown'');
           region = tag m ''region'';
           datacenter = tag m ''dc'';
           bootstrap = (Member_Tags m ''bootstrap'' \<noteq> None)
       in
       case (case Member_Tags m ''expect'' of None \<Rightarrow> Some 0 | Some expectStr \<Rightarrow> Atoi expectStr) of
         None \<Rightarrow> (False, None)
       | Some expect \<Rightarrow>
       let rpcIP = (case ParseIP L (tag m ''rpc_addr'') of None \<Rightarrow> Member_Addr m | Some ip \<Rightarrow> Some ip)
       in
       case Atoi (tag m ''port'') of
         None \<Rightarrow> (False, None)
       | Some port \<Rightarrow>
       case NewVersion L (tag m ''build'') of
         None \<Rightarrow> (False, None)
       | Some buildVersion \<Rightarrow>
       case Atoi (tag m ''vsn'') of
         None \<Rightarrow> (False, None)
       | Some majorVersion \<Rightarrow>
       let minorVersion = (case Atoi (tag m ''mvn'') of None \<Rightarrow> 0 | Some v \<Rightarrow> v)
       in
       case (case Member_Tags m ''raft_vsn'' of None \<Rightarrow> Some 0 | Some raftVsnString \<Rightarrow> Atoi raftVsnString) of
         None \<Rightarrow> (False, None)
       | Some raftVsn \<Rightarrow>
       let addr = \<lparr>TCP_IP = Member_Addr m, TCP_Port = port, TCP_Zone = []\<rparr>;
           rpcAddr = \<lparr>TCP_IP = rpcIP, TCP_Port = port, TCP_Zone = []\<rparr>
       in (True, Some \<lparr>Name = Member_Name m, ID = id, Region = region, Datacenter = datacenter,
                       Port = port, Bootstrap = bootstrap, Expect = expect,
                       MajorVersion = majorVersion, MinorVersion = minorVersion,
                       Build = buildVersion, RaftVersion = raftVsn,
                       Addr = addr, RPCAddr = rpcAddr, Status = Member_Status m\<rparr>))"

subsection \<open>\<^verbatim>\<open>slicesMatch\<close> and \<^verbatim>\<open>ServersMeetMinimumVersion\<close>\<close>

text \<open>The loop \<^verbatim>\<open>for i := range a\<close> of \<^verbatim>\<open>slicesMatch\<close>, from index \<open>i\<close> on.\<close>

function slicesMatch_loop :: "int list \<Rightarrow> int list \<Rightarrow> nat \<Rightarrow> bool" where
  "slicesMatch_loop a b i =
    (if i < length a then (if a ! i \<noteq> b ! i then False else slicesMatch_loop a b (i + 1))
     else True)"
  by pat_completeness auto
termination
  by (relation "measure (\<lambda>(a, b, i). length a - i)") auto

declare slicesMatch_loop.simps [simp del]

text \<open>
  \<^verbatim>\<open>slicesMatch\<close> on two int slices, \<open>None\<close> being the nil slice. The loop indexes \<open>b\<close>
  only after the lengths were found equal, so no index is out of range.
\<close>

definition slicesMatch :: "int list option \<Rightarrow> int list option \<Rightarrow> bool" where
  "slicesMatch a b =
    (if a = None \<and> b = None then True
     else if a = None \<or> b = None then False
     else if length (the a) \<noteq> length (the b) then False
     else slicesMatch_loop (the a) (the b) 0)"

text \<open>
  \<^verbatim>\<open>ServersMeetMinimumVersion\<close>: the loop over \<^verbatim>\<open>members\<close> as recursion on the list. The
  source reads \<^verbatim>\<open>parts.Status\<close> through the pointer as soon as \<^verbatim>\<open>valid\<close> is true, so a
  pair \<^verbatim>\<open>(true, nil)\<close> would be a nil dereference: the result \<open>None\<close> stands for that panic.
  The argument \<^verbatim>\<open>minVersion\<close> is a version, that is a pointer that is not nil.
\<close>

fun ServersMeetMinimumVersion :: "'v library \<Rightarrow> Member list \<Rightarrow> 'v \<Rightarrow> bool option" where
  "ServersMeetMinimumVersion L [] minVersion = Some True"
| "ServersMeetMinimumVersion L (member # members) minVersion =
    (case isNomadServer L member of
       (valid, parts) \<Rightarrow>
         if valid then
           (case parts of
              None \<Rightarrow> None
            | Some p \<Rightarrow>
                if Status p = StatusAlive then
                  (let versionsMatch = slicesMatch (Segments L minVersion) (Segments L (Build p))
                   in if LessThan L (Build p) minVersion \<and> \<not> versionsMatch then Some False
                      else ServersMeetMinimumVersion L members minVersion)
                else ServersMeetMinimumVersion L members minVersion)
         else ServersMeetMinimumVersion L members minVersion)"

subsection \<open>\<^verbatim>\<open>nodeSupportsRpc\<close> and \<^verbatim>\<open>getNodeForRpc\<close>\<close>

text \<open>
  The errors that the two functions return: the two constants of \<^verbatim>\<open>structs\<close>, the error
  built by \<^verbatim>\<open>fmt.Errorf("Unknown node %q", nodeID)\<close>, which carries the node ID, and any
  other error, which the state store's lookup may return.
\<close>

datatype go_error =
  ErrUnknownNomadVersion
| ErrNodeLacksRpc
| Errorf_Unknown_node string
| OtherError string

text \<open>\<^verbatim>\<open>structs.Node\<close>, with the field that is read, and its ID.\<close>

record Node =
  Node_ID :: string
  Attributes :: "string \<rightharpoonup> string"

text \<open>
  \<^verbatim>\<open>state.StateSnapshot\<close> is used through \<^verbatim>\<open>snap.NodeByID(nil, nodeID)\<close> only, which returns
  the Go pair \<^verbatim>\<open>(*structs.Node, error)\<close>.
\<close>

record StateSnapshot =
  NodeByID :: "string \<Rightarrow> Node option \<times> go_error option"

text \<open>
  The package variable \<^verbatim>\<open>minNodeVersionSupportingRPC\<close> is initialised once with
  \<^verbatim>\<open>version.Must(version.NewVersion("0.8.0-rc1"))\<close>; \<open>None\<close> stands for the panic of
  \<^verbatim>\<open>version.Must\<close> when the string does not parse. The functions that read the variable
  take its value as the argument \<open>minNodeVersion\<close>.
\<close>

definition minNodeVersionSupportingRPC :: "'v library \<Rightarrow> 'v option" where
  "minNodeVersionSupportingRPC L = NewVersion L ''0.8.0-rc1''"

text \<open>\<^verbatim>\<open>nodeSupportsRpc\<close>: \<open>None\<close> is the nil error.\<close>

definition nodeSupportsRpc :: "'v library \<Rightarrow> 'v \<Rightarrow> Node \<Rightarrow> go_error option" where
  "nodeSupportsRpc L minNodeVersion node =
    (case Attributes node ''nomad.version'' of
       None \<Rightarrow> Some ErrUnknownNomadVersion
     | Some rawNodeVer \<Rightarrow>
         (case NewVersion L rawNodeVer of
            None \<Rightarrow> Some ErrUnknownNomadVersion
          | Some nodeVer \<Rightarrow>
              if LessThan L nodeVer minNodeVersion then Some ErrNodeLacksRpc else None))"

text \<open>\<^verbatim>\<open>getNodeForRpc\<close>, returning the Go pair \<^verbatim>\<open>(*structs.Node, error)\<close>.\<close>

definition getNodeForRpc ::
  "'v library \<Rightarrow> 'v \<Rightarrow> StateSnapshot \<Rightarrow> string \<Rightarrow> Node option \<times> go_error option" where
  "getNodeForRpc L minNodeVersion snap nodeID =
    (case NodeByID snap nodeID of
       (node, err) \<Rightarrow>
         if err \<noteq> None then (None, err)
         else
           (case node of
              None \<Rightarrow> (None, Some (Errorf_Unknown_node nodeID))
            | Some n \<Rightarrow>
                (case nodeSupportsRpc L minNodeVersion n of
                   Some e \<Rightarrow> (None, Some e)
                 | None \<Rightarrow> (Some n, None))))"

subsection \<open>A library to evaluate the functions with\<close>

text \<open>
  Modelled from the spec: the packages \<^verbatim>\<open>github.com/hashicorp/go-version\<close> and \<^verbatim>\<open>net\<close> are
  missing from the sources. The spec describes a version as "major.minor.patch plus
  optional pre-release/build metadata", ordered so that "a pre-release of a version is
  strictly less than the final release of that same version", and an RPC address tag that
  "must parse as an IP literal". The definitions of this subsection are one library of
  that description, for the plain forms \<^verbatim>\<open>[v]N[.N]*[-PRE][+META]\<close> of a version and the
  dotted-quad form of an IP address. They serve to evaluate the functions above on concrete
  inputs; no theorem about all libraries depends on them.
\<close>

record Version =
  segments :: "int list"
  pre :: string
  metadata :: string

fun splitOn :: "char \<Rightarrow> string \<Rightarrow> string list" where
  "splitOn sep [] = [[]]"
| "splitOn sep (c # cs) =
    (if c = sep then [] # splitOn sep cs
     else (case splitOn sep cs of [] \<Rightarrow> [[c]] | w # ws \<Rightarrow> (c # w) # ws))"

definition isNumber :: "string \<Rightarrow> bool" where
  "isNumber s = (s \<noteq> [] \<and> list_all isDigit s)"

definition ref_NewVersion :: "string \<Rightarrow> Version option" where
  "ref_NewVersion s =
    (let s1 = (if s \<noteq> [] \<and> hd s = CHR ''v'' then tl s else s);
         body = takeWhile (\<lambda>c. c \<noteq> CHR ''+'') s1;
         meta = drop 1 (dropWhile (\<lambda>c. c \<noteq> CHR ''+'') s1);
         core = takeWhile (\<lambda>c. c \<noteq> CHR ''-'') body;
         p = drop 1 (dropWhile (\<lambda>c. c \<noteq> CHR ''-'') body);
         segs = splitOn (CHR ''.'') core
     in if \<not> list_all isNumber segs then None
        else Some \<lparr>segments = map decimal segs @ replicate (3 - length segs) 0,
                   pre = p, metadata = meta\<rparr>)"

text \<open>Three-way comparison of segment lists, a missing segment counting as zero.\<close>

fun compareSegments :: "int list \<Rightarrow> int list \<Rightarrow> int" where
  "compareSegments [] [] = 0"
| "compareSegments (x # xs) [] = (if x > 0 then 1 else if x < 0 then - 1 else compareSegments xs [])"
| "compareSegments [] (y # ys) = (if 0 < y then - 1 else if y < 0 then 1 else compareSegments [] ys)"
| "compareSegments (x # xs) (y # ys) =
    (if x < y then - 1 else if y < x then 1 else compareSegments xs ys)"

fun compareBytes :: "string \<Rightarrow> string \<Rightarrow> int" where
  "compareBytes [] [] = 0"
| "compareBytes [] (y # ys) = - 1"
| "compareBytes (x # xs) [] = 1"
| "compareBytes (x # xs) (y # ys) =
    (if (of_char x :: nat) < of_char y then - 1
     else if (of_char y :: nat) < of_char x then 1
     else compareBytes xs ys)"

text \<open>
  One pre-release identifier against another: two numbers by value, a number below a word,
  two words by their bytes.
\<close>

definition comparePart :: "string \<Rightarrow> string \<Rightarrow> int" where
  "comparePart a b =
    (if a = b then 0
     else if isNumber a \<and> isNumber b then (if decimal a < decimal b then - 1 else 1)
     else if isNumber a then - 1
     else if isNumber b then 1
     else compareBytes a b)"

fun compareParts :: "string list \<Rightarrow> string list \<Rightarrow> int" where
  "compareParts [] [] = 0"
| "compareParts [] (y # ys) = - 1"
| "compareParts (x # xs) [] = 1"
| "compareParts (x # xs) (y # ys) =
    (if comparePart x y \<noteq> 0 then comparePart x y else compareParts xs ys)"

definition ref_Compare :: "Version \<Rightarrow> Version \<Rightarrow> int" where
  "ref_Compare v other =
    (if compareSegments (segments v) (segments other) \<noteq> 0
       then compareSegments (segments v) (segments other)
     else if pre v = pre other then 0
     else if pre v = [] then 1
     else if pre other = [] then - 1
     else compareParts (splitOn (CHR ''.'') (pre v)) (splitOn (CHR ''.'') (pre other)))"

definition ref_LessThan :: "Version \<Rightarrow> Version \<Rightarrow> bool" where
  "ref_LessThan v other = (ref_Compare v other < 0)"

definition ref_Segments :: "Version \<Rightarrow> int list option" where
  "ref_Segments v = Some (segments v)"

text \<open>
  A dotted-quad address, in the 16-byte form in which \<^verbatim>\<open>net.ParseIP\<close> returns an IPv4
  address; every other string gives nil.
\<close>

definition ref_ParseIP :: "string \<Rightarrow> IP" where
  "ref_ParseIP s =
    (let fields = splitOn (CHR ''.'') s
     in if length fields = 4 \<and> list_all (\<lambda>f. isNumber f \<and> length f \<le> 3 \<and> decimal f \<le> 255) fields
        then Some (replicate 10 0 @ [255, 255] @ map (\<lambda>f. word_of_int (decimal f)) fields)
        else None)"

definition ref_library :: "Version library" where
  "ref_library =
    \<lparr>ParseIP = ref_ParseIP, NewVersion = ref_NewVersion,
     LessThan = ref_LessThan, Segments = ref_Segments\<rparr>"

text \<open>A membership record from its parts, the tags as a list of pairs.\<close>

definition mkMember :: "string \<Rightarrow> IP \<Rightarrow> MemberStatus \<Rightarrow> (string \<times> string) list \<Rightarrow> Member" where
  "mkMember n a st tags =
    \<lparr>Member_Name = n, Member_Addr = a, Member_Port = 4648, Member_Tags = map_of tags,
     Member_Status = st\<rparr>"

subsection \<open>Concrete inputs\<close>

definition v_0_8_0 :: Version where
  "v_0_8_0 = \<lparr>segments = [0, 8, 0], pre = [], metadata = []\<rparr>"

definition v_0_8_0_rc1 :: Version where
  "v_0_8_0_rc1 = \<lparr>segments = [0, 8, 0], pre = ''rc1'', metadata = []\<rparr>"

definition serverTags :: "string \<Rightarrow> string \<Rightarrow> (string \<times> string) list" where
  "serverTags port build =
    [(''role'', ''nomad''), (''region'', ''global''), (''dc'', ''dc1''),
     (''port'', port), (''build'', build), (''vsn'', ''1'')]"

definition server_rc1 :: Member where
  "server_rc1 = mkMember ''s1.global'' (Some [10, 0, 0, 1]) StatusAlive (serverTags ''4647'' ''0.8.0-rc1'')"

definition server_old_failed :: Member where
  "server_old_failed = mkMember ''s2.global'' (Some [10, 0, 0, 2]) StatusFailed (serverTags ''4647'' ''0.5.0'')"

definition client_member :: Member where
  "client_member = mkMember ''c1'' (Some [10, 0, 0, 3]) StatusAlive [(''role'', ''node''), (''build'', ''0.5.0'')]"

definition server_bad_port :: Member where
  "server_bad_port = mkMember ''s3.global'' (Some [10, 0, 0, 4]) StatusAlive (serverTags ''http'' ''0.8.0'')"

definition server_negative_port :: Member where
  "server_negative_port = mkMember ''s4.global'' (Some [10, 0, 0, 5]) StatusAlive (serverTags ''-1'' ''0.8.0'')"

definition server_bad_expect :: Member where
  "server_bad_expect =
    mkMember ''s5.global'' (Some [10, 0, 0, 6]) StatusAlive ((''expect'', ''three'') # serverTags ''4647'' ''0.8.0'')"

definition server_bad_mvn :: Member where
  "server_bad_mvn =
    mkMember ''s6.global'' (Some [10, 0, 0, 7]) StatusAlive ((''mvn'', ''one'') # serverTags ''4647'' ''0.8.0'')"

definition server_bad_rpc_addr :: Member where
  "server_bad_rpc_addr =
    mkMember ''s7.global'' (Some [10, 0, 0, 8]) StatusAlive ((''rpc_addr'', ''localhost'') # serverTags ''4647'' ''0.8.0'')"

definition server_rpc_addr :: Member where
  "server_rpc_addr =
    mkMember ''s8.global'' (Some [10, 0, 0, 9]) StatusAlive ((''rpc_addr'', ''192.168.1.9'') # serverTags ''4647'' ''0.8.0'')"

definition node_0_7_1 :: Node where
  "node_0_7_1 = \<lparr>Node_ID = ''n1'', Attributes = map_of [(''nomad.version'', ''0.7.1'')]\<rparr>"

definition node_0_8_4 :: Node where
  "node_0_8_4 = \<lparr>Node_ID = ''n2'', Attributes = map_of [(''nomad.version'', ''0.8.4'')]\<rparr>"

definition snap_two_nodes :: StateSnapshot where
  "snap_two_nodes =
    \<lparr>NodeByID = (\<lambda>nodeID. if nodeID = ''n1'' then (Some node_0_7_1, None)
                         else if nodeID = ''n2'' then (Some node_0_8_4, None)
                         else (None, None))\<rparr>"

definition snap_failing :: StateSnapshot where
  "snap_failing = \<lparr>NodeByID = (\<lambda>nodeID. (None, Some (OtherError ''node lookup failed'')))\<rparr>"

section \<open>Properties\<close>

subsection \<open>What \<^verbatim>\<open>isNomadServer\<close> returns\<close>

lemma isNomadServer_rejected_or_accepted:
  "isNomadServer L m = (False, None) \<or> (\<exists>p. isNomadServer L m = (True, Some p))"
  by (simp add: isNomadServer_def Let_def split: option.splits)

text \<open>The accepted records, and the descriptor each of them gets, field by field.\<close>

lemma isNomadServer_accepted_iff:
  "isNomadServer L m = (True, Some p) \<longleftrightarrow>
    tag m ''role'' = ''nomad'' \<and>
    (\<exists>expect port buildVersion majorVersion raftVsn.
       (case Member_Tags m ''expect'' of None \<Rightarrow> Some 0 | Some s \<Rightarrow> Atoi s) = Some expect \<and>
       Atoi (tag m ''port'') = Some port \<and>
       NewVersion L (tag m ''build'') = Some buildVersion \<and>
       Atoi (tag m ''vsn'') = Some majorVersion \<and>
       (case Member_Tags m ''raft_vsn'' of None \<Rightarrow> Some 0 | Some s \<Rightarrow> Atoi s) = Some raftVsn \<and>
       p = \<lparr>Name = Member_Name m,
            ID = (case Member_Tags m ''id'' of Some v \<Rightarrow> v | None \<Rightarrow> ''unknown''),
            Region = tag m ''region'', Datacenter = tag m ''dc'',
            Port = port, Bootstrap = (Member_Tags m ''bootstrap'' \<noteq> None), Expect = expect,
            MajorVersion = majorVersion,
            MinorVersion = (case Atoi (tag m ''mvn'') of None \<Rightarrow> 0 | Some v \<Rightarrow> v),
            Build = buildVersion, RaftVersion = raftVsn,
            Addr = \<lparr>TCP_IP = Member_Addr m, TCP_Port = port, TCP_Zone = []\<rparr>,
            RPCAddr = \<lparr>TCP_IP = (case ParseIP L (tag m ''rpc_addr'') of
                                     None \<Rightarrow> Member_Addr m | Some ip \<Rightarrow> Some ip),
                       TCP_Port = port, TCP_Zone = []\<rparr>,
            Status = Member_Status m\<rparr>)"
  unfolding isNomadServer_def Let_def
  by (cases "tag m ''role'' = ''nomad''";
      cases "case Member_Tags m ''expect'' of None \<Rightarrow> Some 0 | Some s \<Rightarrow> Atoi s";
      cases "Atoi (tag m ''port'')";
      cases "NewVersion L (tag m ''build'')";
      cases "Atoi (tag m ''vsn'')";
      cases "case Member_Tags m ''raft_vsn'' of None \<Rightarrow> Some 0 | Some s \<Rightarrow> Atoi s";
      simp; blast)

lemma accepted_role: "isNomadServer L m = (True, Some p) \<Longrightarrow> tag m ''role'' = ''nomad''"
  by (simp add: isNomadServer_accepted_iff)

lemma accepted_port: "isNomadServer L m = (True, Some p) \<Longrightarrow> Atoi (tag m ''port'') = Some (Port p)"
  by (auto simp add: isNomadServer_accepted_iff)

lemma accepted_build:
  "isNomadServer L m = (True, Some p) \<Longrightarrow> NewVersion L (tag m ''build'') = Some (Build p)"
  by (auto simp add: isNomadServer_accepted_iff)

lemma accepted_vsn:
  "isNomadServer L m = (True, Some p) \<Longrightarrow> Atoi (tag m ''vsn'') = Some (MajorVersion p)"
  by (auto simp add: isNomadServer_accepted_iff)

lemma accepted_mvn:
  "isNomadServer L m = (True, Some p) \<Longrightarrow>
   MinorVersion p = (case Atoi (tag m ''mvn'') of None \<Rightarrow> 0 | Some v \<Rightarrow> v)"
  by (auto simp add: isNomadServer_accepted_iff)

lemma accepted_expect:
  "isNomadServer L m = (True, Some p) \<Longrightarrow>
   (case Member_Tags m ''expect'' of None \<Rightarrow> Some 0 | Some s \<Rightarrow> Atoi s) = Some (Expect p)"
  by (auto simp add: isNomadServer_accepted_iff)

lemma accepted_raft_vsn:
  "isNomadServer L m = (True, Some p) \<Longrightarrow>
   (case Member_Tags m ''raft_vsn'' of None \<Rightarrow> Some 0 | Some s \<Rightarrow> Atoi s) = Some (RaftVersion p)"
  by (auto simp add: isNomadServer_accepted_iff)

lemma accepted_Addr:
  "isNomadServer L m = (True, Some p) \<Longrightarrow>
   Addr p = \<lparr>TCP_IP = Member_Addr m, TCP_Port = Port p, TCP_Zone = []\<rparr>"
  by (auto simp add: isNomadServer_accepted_iff)

lemma accepted_RPCAddr:
  "isNomadServer L m = (True, Some p) \<Longrightarrow>
   RPCAddr p = \<lparr>TCP_IP = (case ParseIP L (tag m ''rpc_addr'') of
                            None \<Rightarrow> Member_Addr m | Some ip \<Rightarrow> Some ip),
               TCP_Port = Port p, TCP_Zone = []\<rparr>"
  by (auto simp add: isNomadServer_accepted_iff)

text \<open>Which records are accepted: the first component of the result.\<close>

lemma fst_isNomadServer:
  "fst (isNomadServer L m) =
    (tag m ''role'' = ''nomad'' \<and> Atoi (tag m ''port'') \<noteq> None \<and>
     NewVersion L (tag m ''build'') \<noteq> None \<and> Atoi (tag m ''vsn'') \<noteq> None \<and>
     (\<forall>s. Member_Tags m ''expect'' = Some s \<longrightarrow> Atoi s \<noteq> None) \<and>
     (\<forall>s. Member_Tags m ''raft_vsn'' = Some s \<longrightarrow> Atoi s \<noteq> None))"
  by (auto simp add: isNomadServer_def Let_def split: option.splits)

lemma accepted_fst: "isNomadServer L m = (True, Some p) \<Longrightarrow> fst (isNomadServer L m)"
  by simp

lemma fst_accepted: "fst (isNomadServer L m) \<Longrightarrow> \<exists>p. isNomadServer L m = (True, Some p)"
  using isNomadServer_rejected_or_accepted [of L m] by auto

lemma not_fst_rejected: "\<not> fst (isNomadServer L m) \<Longrightarrow> isNomadServer L m = (False, None)"
  using isNomadServer_rejected_or_accepted [of L m] by auto

lemma the_snd_accepted:
  "fst (isNomadServer L m) \<Longrightarrow>
   isNomadServer L m = (True, Some (the (snd (isNomadServer L m))))"
  using isNomadServer_rejected_or_accepted [of L m] by auto

lemma Atoi_empty: "Atoi [] = None"
  by (simp add: Atoi_def)

lemma tag_absent: "Member_Tags m k = None \<Longrightarrow> tag m k = []"
  by (simp add: tag_def)

text \<open>A tag that is set or removed leaves every other tag as it was.\<close>

lemma tag_update_other:
  "k \<noteq> k' \<Longrightarrow> tag (m\<lparr>Member_Tags := (Member_Tags m)(k := x)\<rparr>) k' = tag m k'"
  by (simp add: tag_def)

subsection \<open>\<^verbatim>\<open>slicesMatch\<close> is equality of slices\<close>

lemma slicesMatch_loop_nth:
  "length a = length b \<Longrightarrow>
   slicesMatch_loop a b i = (\<forall>j. i \<le> j \<and> j < length a \<longrightarrow> a ! j = b ! j)"
proof (induction a b i rule: slicesMatch_loop.induct)
  case (1 a b i)
  show ?case
  proof (cases "i < length a")
    case False
    then show ?thesis by (subst slicesMatch_loop.simps) simp
  next
    case True
    show ?thesis
    proof (cases "a ! i = b ! i")
      case False
      with True show ?thesis by (subst slicesMatch_loop.simps) auto
    next
      case same: True
      have "slicesMatch_loop a b i = slicesMatch_loop a b (i + 1)"
        using True same by (subst slicesMatch_loop.simps) simp
      also have "\<dots> = (\<forall>j. i + 1 \<le> j \<and> j < length a \<longrightarrow> a ! j = b ! j)"
        using "1.IH" [OF True] same "1.prems" by simp
      also have "\<dots> = (\<forall>j. i \<le> j \<and> j < length a \<longrightarrow> a ! j = b ! j)"
      proof -
        have "\<And>j. i \<le> j \<Longrightarrow> j = i \<or> i + 1 \<le> j" by arith
        with same show ?thesis by (metis Suc_eq_plus1 Suc_leD)
      qed
      finally show ?thesis .
    qed
  qed
qed

lemma slicesMatch_eq: "slicesMatch a b = (a = b)"
proof (cases a)
  case None
  then show ?thesis by (cases b) (simp_all add: slicesMatch_def)
next
  case (Some xs)
  show ?thesis
  proof (cases b)
    case None
    with Some show ?thesis by (simp add: slicesMatch_def)
  next
    case (Some ys)
    with \<open>a = Some xs\<close> show ?thesis
      by (auto simp add: slicesMatch_def slicesMatch_loop_nth list_eq_iff_nth_eq)
  qed
qed

text \<open>One step of the loop of \<^verbatim>\<open>ServersMeetMinimumVersion\<close>, by the result of the classifier.\<close>

lemma ServersMeetMinimumVersion_rejected:
  "isNomadServer L member = (False, None) \<Longrightarrow>
   ServersMeetMinimumVersion L (member # members) minVersion =
     ServersMeetMinimumVersion L members minVersion"
  by simp

lemma ServersMeetMinimumVersion_accepted:
  "isNomadServer L member = (True, Some p) \<Longrightarrow>
   ServersMeetMinimumVersion L (member # members) minVersion =
     (if Status p = StatusAlive \<and> LessThan L (Build p) minVersion \<and>
         Segments L minVersion \<noteq> Segments L (Build p)
      then Some False
      else ServersMeetMinimumVersion L members minVersion)"
  by (simp add: slicesMatch_eq Let_def)

subsection \<open>The cluster version gate\<close>

text \<open>
  C1. For every list of membership records and every minimum version,
  \<^verbatim>\<open>ServersMeetMinimumVersion\<close> returns (it never dereferences a nil descriptor), and it returns
  true if and only if every member that \<^verbatim>\<open>isNomadServer\<close> accepts and whose status is alive
  is compliant: its build is not less than the minimum version, or the segments of its build
  equal the segments of the minimum version. So the result is true for the empty list, and
  for every list in which no member is both a server and alive.
\<close>

theorem ServersMeetMinimumVersion_iff_all_alive_servers_compliant:
  "ServersMeetMinimumVersion L members minVersion =
     Some (\<forall>m \<in> set members. \<forall>p.
             isNomadServer L m = (True, Some p) \<and> Status p = StatusAlive \<longrightarrow>
             \<not> LessThan L (Build p) minVersion \<or>
             Segments L (Build p) = Segments L minVersion)
   \<and> ServersMeetMinimumVersion L [] minVersion = Some True
   \<and> ((\<forall>m \<in> set members. \<forall>p. isNomadServer L m = (True, Some p) \<longrightarrow> Status p \<noteq> StatusAlive)
        \<longrightarrow> ServersMeetMinimumVersion L members minVersion = Some True)"
proof -
  have main: "ServersMeetMinimumVersion L ms minVersion =
     Some (\<forall>m \<in> set ms. \<forall>p.
             isNomadServer L m = (True, Some p) \<and> Status p = StatusAlive \<longrightarrow>
             \<not> LessThan L (Build p) minVersion \<or>
             Segments L (Build p) = Segments L minVersion)" for ms
  proof (induction ms)
    case Nil
    show ?case by simp
  next
    case (Cons member ms)
    from isNomadServer_rejected_or_accepted [of L member]
    show ?case
    proof
      assume r: "isNomadServer L member = (False, None)"
      show ?thesis
        unfolding ServersMeetMinimumVersion_rejected [OF r] Cons.IH using r by simp
    next
      assume "\<exists>p. isNomadServer L member = (True, Some p)"
      then obtain p where p: "isNomadServer L member = (True, Some p)" ..
      show ?thesis
        unfolding ServersMeetMinimumVersion_accepted [OF p] Cons.IH using p by auto
    qed
  qed
  have none: "ServersMeetMinimumVersion L members minVersion = Some True"
    if "\<forall>m \<in> set members. \<forall>p. isNomadServer L m = (True, Some p) \<longrightarrow> Status p \<noteq> StatusAlive"
    using that unfolding main by blast
  from main [of members] none show ?thesis by simp
qed

theorem ServersMeetMinimumVersion_witness:
  "fst (isNomadServer ref_library server_rc1)
   \<and> Status (the (snd (isNomadServer ref_library server_rc1))) = StatusAlive
   \<and> LessThan ref_library (Build (the (snd (isNomadServer ref_library server_rc1)))) v_0_8_0
   \<and> Segments ref_library (Build (the (snd (isNomadServer ref_library server_rc1))))
       = Segments ref_library v_0_8_0
   \<and> \<not> fst (isNomadServer ref_library client_member)
   \<and> fst (isNomadServer ref_library server_old_failed)
   \<and> Status (the (snd (isNomadServer ref_library server_old_failed))) = StatusFailed
   \<and> LessThan ref_library (Build (the (snd (isNomadServer ref_library server_old_failed)))) v_0_8_0
   \<and> ServersMeetMinimumVersion ref_library [server_rc1, client_member, server_old_failed] v_0_8_0
       = Some True"
proof -
  have a: "fst (isNomadServer ref_library server_rc1)" by code_simp
  have a1: "Status (the (snd (isNomadServer ref_library server_rc1))) = StatusAlive" by code_simp
  have a2: "LessThan ref_library (Build (the (snd (isNomadServer ref_library server_rc1)))) v_0_8_0"
    by code_simp
  have a3: "Segments ref_library (Build (the (snd (isNomadServer ref_library server_rc1))))
       = Segments ref_library v_0_8_0" by code_simp
  have b: "\<not> fst (isNomadServer ref_library client_member)" by code_simp
  have c: "fst (isNomadServer ref_library server_old_failed)" by code_simp
  have c1: "Status (the (snd (isNomadServer ref_library server_old_failed))) = StatusFailed"
    by code_simp
  have c2: "LessThan ref_library (Build (the (snd (isNomadServer ref_library server_old_failed)))) v_0_8_0"
    by code_simp
  have "\<forall>m \<in> set [server_rc1, client_member, server_old_failed]. \<forall>p.
          isNomadServer ref_library m = (True, Some p) \<and> Status p = StatusAlive \<longrightarrow>
          \<not> LessThan ref_library (Build p) v_0_8_0 \<or>
          Segments ref_library (Build p) = Segments ref_library v_0_8_0"
    using a3 b c1 by auto
  with ServersMeetMinimumVersion_iff_all_alive_servers_compliant
         [of ref_library "[server_rc1, client_member, server_old_failed]" v_0_8_0]
  have "ServersMeetMinimumVersion ref_library [server_rc1, client_member, server_old_failed] v_0_8_0
       = Some True" by simp
  with a a1 a2 a3 b c c1 c2 show ?thesis by blast
qed

subsection \<open>The member classifier\<close>

text \<open>
  C2. For every membership record, \<^verbatim>\<open>isNomadServer\<close> returns either \<^verbatim>\<open>(false, nil)\<close> or
  \<^verbatim>\<open>(true, parts)\<close> with a descriptor of which every field is filled from the record: the
  role tag is \<^verbatim>\<open>nomad\<close>, the \<^verbatim>\<open>port\<close>, \<^verbatim>\<open>build\<close> and \<^verbatim>\<open>vsn\<close> tags parse and give the port,
  the build and the major version, the \<^verbatim>\<open>expect\<close> and \<^verbatim>\<open>raft_vsn\<close> tags are absent (giving 0)
  or parse, and the name, ID, region, datacenter, bootstrap flag, minor version, the two
  addresses and the status are the values that the source computes. Whenever the role tag
  is missing or is not \<^verbatim>\<open>nomad\<close>, or one of the \<^verbatim>\<open>port\<close>, \<^verbatim>\<open>build\<close> and \<^verbatim>\<open>vsn\<close> tags fails to
  parse, the result is \<^verbatim>\<open>(false, nil)\<close>. So \<^verbatim>\<open>(true, nil)\<close>, a descriptor beside \<^verbatim>\<open>false\<close> and
  a descriptor with a field left unset never occur.
\<close>

theorem isNomadServer_descriptor_or_nothing:
  "(isNomadServer L m = (False, None)
    \<or> (\<exists>expect port buildVersion majorVersion raftVsn.
          tag m ''role'' = ''nomad''
          \<and> (case Member_Tags m ''expect'' of None \<Rightarrow> Some 0 | Some s \<Rightarrow> Atoi s) = Some expect
          \<and> Atoi (tag m ''port'') = Some port
          \<and> NewVersion L (tag m ''build'') = Some buildVersion
          \<and> Atoi (tag m ''vsn'') = Some majorVersion
          \<and> (case Member_Tags m ''raft_vsn'' of None \<Rightarrow> Some 0 | Some s \<Rightarrow> Atoi s) = Some raftVsn
          \<and> isNomadServer L m =
              (True,
               Some \<lparr>Name = Member_Name m,
                     ID = (case Member_Tags m ''id'' of Some v \<Rightarrow> v | None \<Rightarrow> ''unknown''),
                     Region = tag m ''region'',
                     Datacenter = tag m ''dc'',
                     Port = port,
                     Bootstrap = (Member_Tags m ''bootstrap'' \<noteq> None),
                     Expect = expect,
                     MajorVersion = majorVersion,
                     MinorVersion = (case Atoi (tag m ''mvn'') of None \<Rightarrow> 0 | Some v \<Rightarrow> v),
                     Build = buildVersion,
                     RaftVersion = raftVsn,
                     Addr = \<lparr>TCP_IP = Member_Addr m, TCP_Port = port, TCP_Zone = []\<rparr>,
                     RPCAddr = \<lparr>TCP_IP = (case ParseIP L (tag m ''rpc_addr'') of
                                              None \<Rightarrow> Member_Addr m | Some ip \<Rightarrow> Some ip),
                                TCP_Port = port, TCP_Zone = []\<rparr>,
                     Status = Member_Status m\<rparr>)))
   \<and> (Member_Tags m ''role'' = None \<or> tag m ''role'' \<noteq> ''nomad''
        \<or> Atoi (tag m ''port'') = None
        \<or> NewVersion L (tag m ''build'') = None
        \<or> Atoi (tag m ''vsn'') = None
       \<longrightarrow> isNomadServer L m = (False, None))"
proof (rule conjI)
  from isNomadServer_rejected_or_accepted [of L m]
  show "isNomadServer L m = (False, None)
    \<or> (\<exists>expect port buildVersion majorVersion raftVsn.
          tag m ''role'' = ''nomad''
          \<and> (case Member_Tags m ''expect'' of None \<Rightarrow> Some 0 | Some s \<Rightarrow> Atoi s) = Some expect
          \<and> Atoi (tag m ''port'') = Some port
          \<and> NewVersion L (tag m ''build'') = Some buildVersion
          \<and> Atoi (tag m ''vsn'') = Some majorVersion
          \<and> (case Member_Tags m ''raft_vsn'' of None \<Rightarrow> Some 0 | Some s \<Rightarrow> Atoi s) = Some raftVsn
          \<and> isNomadServer L m =
              (True,
               Some \<lparr>Name = Member_Name m,
                     ID = (case Member_Tags m ''id'' of Some v \<Rightarrow> v | None \<Rightarrow> ''unknown''),
                     Region = tag m ''region'',
                     Datacenter = tag m ''dc'',
                     Port = port,
                     Bootstrap = (Member_Tags m ''bootstrap'' \<noteq> None),
                     Expect = expect,
                     MajorVersion = majorVersion,
                     MinorVersion = (case Atoi (tag m ''mvn'') of None \<Rightarrow> 0 | Some v \<Rightarrow> v),
                     Build = buildVersion,
                     RaftVersion = raftVsn,
                     Addr = \<lparr>TCP_IP = Member_Addr m, TCP_Port = port, TCP_Zone = []\<rparr>,
                     RPCAddr = \<lparr>TCP_IP = (case ParseIP L (tag m ''rpc_addr'') of
                                              None \<Rightarrow> Member_Addr m | Some ip \<Rightarrow> Some ip),
                                TCP_Port = port, TCP_Zone = []\<rparr>,
                     Status = Member_Status m\<rparr>))"
  proof
    assume "isNomadServer L m = (False, None)"
    then show ?thesis by (rule disjI1)
  next
    assume "\<exists>p. isNomadServer L m = (True, Some p)"
    then obtain p where p: "isNomadServer L m = (True, Some p)" ..
    from p [unfolded isNomadServer_accepted_iff]
    obtain expect port buildVersion majorVersion raftVsn where
      f: "tag m ''role'' = ''nomad''"
         "(case Member_Tags m ''expect'' of None \<Rightarrow> Some 0 | Some s \<Rightarrow> Atoi s) = Some expect"
         "Atoi (tag m ''port'') = Some port"
         "NewVersion L (tag m ''build'') = Some buildVersion"
         "Atoi (tag m ''vsn'') = Some majorVersion"
         "(case Member_Tags m ''raft_vsn'' of None \<Rightarrow> Some 0 | Some s \<Rightarrow> Atoi s) = Some raftVsn"
      and d: "p = \<lparr>Name = Member_Name m,
            ID = (case Member_Tags m ''id'' of Some v \<Rightarrow> v | None \<Rightarrow> ''unknown''),
            Region = tag m ''region'', Datacenter = tag m ''dc'',
            Port = port, Bootstrap = (Member_Tags m ''bootstrap'' \<noteq> None), Expect = expect,
            MajorVersion = majorVersion,
            MinorVersion = (case Atoi (tag m ''mvn'') of None \<Rightarrow> 0 | Some v \<Rightarrow> v),
            Build = buildVersion, RaftVersion = raftVsn,
            Addr = \<lparr>TCP_IP = Member_Addr m, TCP_Port = port, TCP_Zone = []\<rparr>,
            RPCAddr = \<lparr>TCP_IP = (case ParseIP L (tag m ''rpc_addr'') of
                                     None \<Rightarrow> Member_Addr m | Some ip \<Rightarrow> Some ip),
                       TCP_Port = port, TCP_Zone = []\<rparr>,
            Status = Member_Status m\<rparr>"
      by (elim conjE exE)
    show ?thesis
      apply (rule disjI2)
      apply (rule exI [of _ expect], rule exI [of _ port], rule exI [of _ buildVersion],
             rule exI [of _ majorVersion], rule exI [of _ raftVsn])
      apply (intro conjI f)
      apply (simp only: p d)
      done
  qed
next
  have no_role: "tag m ''role'' \<noteq> ''nomad''" if "Member_Tags m ''role'' = None"
    using tag_absent [OF that] by simp
  show "Member_Tags m ''role'' = None \<or> tag m ''role'' \<noteq> ''nomad''
        \<or> Atoi (tag m ''port'') = None
        \<or> NewVersion L (tag m ''build'') = None
        \<or> Atoi (tag m ''vsn'') = None
       \<longrightarrow> isNomadServer L m = (False, None)"
  proof
    assume h: "Member_Tags m ''role'' = None \<or> tag m ''role'' \<noteq> ''nomad''
        \<or> Atoi (tag m ''port'') = None
        \<or> NewVersion L (tag m ''build'') = None
        \<or> Atoi (tag m ''vsn'') = None"
    show "isNomadServer L m = (False, None)"
    proof (rule not_fst_rejected)
      show "\<not> fst (isNomadServer L m)"
        using h no_role by (auto simp add: fst_isNomadServer)
    qed
  qed
qed

theorem isNomadServer_descriptor_or_nothing_witness:
  "tag server_rpc_addr ''role'' = ''nomad''
   \<and> Atoi (tag server_rpc_addr ''port'') = Some 4647
   \<and> NewVersion ref_library (tag server_rpc_addr ''build'') = Some v_0_8_0
   \<and> Atoi (tag server_rpc_addr ''vsn'') = Some 1
   \<and> isNomadServer ref_library server_rpc_addr =
       (True,
        Some \<lparr>Name = ''s8.global'', ID = ''unknown'', Region = ''global'', Datacenter = ''dc1'',
              Port = 4647, Bootstrap = False, Expect = 0, MajorVersion = 1, MinorVersion = 0,
              Build = v_0_8_0, RaftVersion = 0,
              Addr = \<lparr>TCP_IP = Some [10, 0, 0, 9], TCP_Port = 4647, TCP_Zone = []\<rparr>,
              RPCAddr = \<lparr>TCP_IP = Some [0, 0, 0, 0, 0, 0, 0, 0, 0, 0, 255, 255, 192, 168, 1, 9],
                         TCP_Port = 4647, TCP_Zone = []\<rparr>,
              Status = StatusAlive\<rparr>)
   \<and> Atoi (tag server_bad_port ''port'') = None
   \<and> isNomadServer ref_library server_bad_port = (False, None)
   \<and> Member_Tags client_member ''role'' \<noteq> None \<and> tag client_member ''role'' \<noteq> ''nomad''
   \<and> isNomadServer ref_library client_member = (False, None)"
proof -
  have a: "fst (isNomadServer ref_library server_rpc_addr)" by code_simp
  have t1: "tag server_rpc_addr ''role'' = ''nomad''" by code_simp
  have t2: "Atoi (tag server_rpc_addr ''port'') = Some 4647" by code_simp
  have t3: "NewVersion ref_library (tag server_rpc_addr ''build'') = Some v_0_8_0" by code_simp
  have t4: "Atoi (tag server_rpc_addr ''vsn'') = Some 1" by code_simp
  have t5: "Member_Tags server_rpc_addr ''expect'' = None" by code_simp
  have t6: "Member_Tags server_rpc_addr ''raft_vsn'' = None" by code_simp
  have t7: "Member_Tags server_rpc_addr ''id'' = None" by code_simp
  have t8: "tag server_rpc_addr ''region'' = ''global''" by code_simp
  have t9: "tag server_rpc_addr ''dc'' = ''dc1''" by code_simp
  have t10: "Member_Tags server_rpc_addr ''bootstrap'' = None" by code_simp
  have t11: "Atoi (tag server_rpc_addr ''mvn'') = None" by code_simp
  have t12: "ParseIP ref_library (tag server_rpc_addr ''rpc_addr'')
              = Some [0, 0, 0, 0, 0, 0, 0, 0, 0, 0, 255, 255, 192, 168, 1, 9]" by code_simp
  have t13: "Member_Name server_rpc_addr = ''s8.global''" by code_simp
  have t14: "Member_Addr server_rpc_addr = Some [10, 0, 0, 9]" by code_simp
  have t15: "Member_Status server_rpc_addr = StatusAlive" by code_simp
  have p: "Atoi (tag server_bad_port ''port'') = None" by code_simp
  have r: "tag client_member ''role'' \<noteq> ''nomad''" by code_simp
  have r': "Member_Tags client_member ''role'' \<noteq> None" by code_simp
  from a have nr: "isNomadServer ref_library server_rpc_addr \<noteq> (False, None)" by auto
  from isNomadServer_descriptor_or_nothing [of ref_library server_rpc_addr] nr
  have 0: "isNomadServer ref_library server_rpc_addr =
       (True,
        Some \<lparr>Name = ''s8.global'', ID = ''unknown'', Region = ''global'', Datacenter = ''dc1'',
              Port = 4647, Bootstrap = False, Expect = 0, MajorVersion = 1, MinorVersion = 0,
              Build = v_0_8_0, RaftVersion = 0,
              Addr = \<lparr>TCP_IP = Some [10, 0, 0, 9], TCP_Port = 4647, TCP_Zone = []\<rparr>,
              RPCAddr = \<lparr>TCP_IP = Some [0, 0, 0, 0, 0, 0, 0, 0, 0, 0, 255, 255, 192, 168, 1, 9],
                         TCP_Port = 4647, TCP_Zone = []\<rparr>,
              Status = StatusAlive\<rparr>)"
    unfolding t2 t3 t4 t5 t6 t7 t8 t9 t10 t11 t12 t13 t14 t15
    by auto
  from p isNomadServer_descriptor_or_nothing [of ref_library server_bad_port]
  have 1: "isNomadServer ref_library server_bad_port = (False, None)" by simp
  from r isNomadServer_descriptor_or_nothing [of ref_library client_member]
  have 2: "isNomadServer ref_library client_member = (False, None)" by simp
  from t1 t2 t3 t4 0 p r r' 1 2 show ?thesis by simp
qed

text \<open>
  C5, as the spec has it, fails: the \<^verbatim>\<open>port\<close> tag \<^verbatim>\<open>-1\<close> parses as an integer, the record is
  accepted and the descriptor's port is \<open>-1\<close>, which is not positive.
\<close>

theorem isNomadServer_port_not_positive:
  "fst (isNomadServer ref_library server_negative_port)
   \<and> Port (the (snd (isNomadServer ref_library server_negative_port))) = - 1
   \<and> \<not> 0 < Port (the (snd (isNomadServer ref_library server_negative_port)))"
  by code_simp

text \<open>
  C5, amended. For every membership record that \<^verbatim>\<open>isNomadServer\<close> accepts, the descriptor's
  port is the integer that \<^verbatim>\<open>strconv.Atoi\<close> reads from the \<^verbatim>\<open>port\<close> tag, of either sign or
  zero, within the range of a 64-bit \<^verbatim>\<open>int\<close>; a record whose \<^verbatim>\<open>port\<close> tag is absent or does
  not parse as an integer is rejected.
\<close>

theorem isNomadServer_port_is_parsed_integer:
  "(\<forall>p. isNomadServer L m = (True, Some p) \<longrightarrow>
      Atoi (tag m ''port'') = Some (Port p) \<and> - (2 ^ 63) \<le> Port p \<and> Port p \<le> 2 ^ 63 - 1)
   \<and> (Member_Tags m ''port'' = None \<or> Atoi (tag m ''port'') = None \<longrightarrow>
      isNomadServer L m = (False, None))"
proof -
  have range: "- (2 ^ 63) \<le> n \<and> n \<le> 2 ^ 63 - 1" if "Atoi s = Some n" for s n
    using that by (simp add: Atoi_def Let_def split: if_splits)
  have absent: "Atoi (tag m ''port'') = None" if "Member_Tags m ''port'' = None"
    using tag_absent [OF that] Atoi_empty by simp
  have "isNomadServer L m = (False, None)"
    if "Member_Tags m ''port'' = None \<or> Atoi (tag m ''port'') = None"
  proof (rule not_fst_rejected)
    show "\<not> fst (isNomadServer L m)"
      using that absent by (auto simp add: fst_isNomadServer)
  qed
  with range accepted_port [of L m] show ?thesis by blast
qed

theorem isNomadServer_port_is_parsed_integer_witness:
  "fst (isNomadServer ref_library server_negative_port)
   \<and> Atoi (tag server_negative_port ''port'') = Some (- 1)
   \<and> Port (the (snd (isNomadServer ref_library server_negative_port))) = - 1
   \<and> Member_Tags client_member ''port'' = None
   \<and> isNomadServer ref_library client_member = (False, None)"
proof -
  have a: "fst (isNomadServer ref_library server_negative_port)" by code_simp
  have v: "Atoi (tag server_negative_port ''port'') = Some (- 1)" by code_simp
  have n: "Member_Tags client_member ''port'' = None" by code_simp
  from fst_accepted [OF a]
  obtain p where p: "isNomadServer ref_library server_negative_port = (True, Some p)" ..
  from p v isNomadServer_port_is_parsed_integer [of ref_library server_negative_port]
  have "Port p = - 1" by auto
  with p have 1: "Port (the (snd (isNomadServer ref_library server_negative_port))) = - 1"
    by simp
  from n isNomadServer_port_is_parsed_integer [of ref_library client_member]
  have 2: "isNomadServer ref_library client_member = (False, None)" by blast
  from a v n 1 2 show ?thesis by blast
qed

text \<open>
  C6. For every membership record whose role tag is \<^verbatim>\<open>nomad\<close> and whose \<^verbatim>\<open>port\<close>,
  \<^verbatim>\<open>build\<close> and \<^verbatim>\<open>vsn\<close> tags parse: if the \<^verbatim>\<open>expect\<close> tag or the \<^verbatim>\<open>raft_vsn\<close> tag is
  present and does not parse as an integer, the result is \<^verbatim>\<open>(false, nil)\<close>; otherwise the
  record is accepted, and the descriptor's \<^verbatim>\<open>Expect\<close> is 0 when the \<^verbatim>\<open>expect\<close> tag is
  absent and its \<^verbatim>\<open>RaftVersion\<close> is 0 when the \<^verbatim>\<open>raft_vsn\<close> tag is absent.
\<close>

theorem isNomadServer_expect_raft_vsn:
  assumes "tag m ''role'' = ''nomad''"
    and "Atoi (tag m ''port'') \<noteq> None"
    and "NewVersion L (tag m ''build'') \<noteq> None"
    and "Atoi (tag m ''vsn'') \<noteq> None"
  shows "((\<exists>s. Member_Tags m ''expect'' = Some s \<and> Atoi s = None)
           \<or> (\<exists>s. Member_Tags m ''raft_vsn'' = Some s \<and> Atoi s = None)
          \<longrightarrow> isNomadServer L m = (False, None))
       \<and> (\<not> ((\<exists>s. Member_Tags m ''expect'' = Some s \<and> Atoi s = None)
               \<or> (\<exists>s. Member_Tags m ''raft_vsn'' = Some s \<and> Atoi s = None))
          \<longrightarrow> (\<exists>p. isNomadServer L m = (True, Some p)
                   \<and> (Member_Tags m ''expect'' = None \<longrightarrow> Expect p = 0)
                   \<and> (Member_Tags m ''raft_vsn'' = None \<longrightarrow> RaftVersion p = 0)))"
proof (intro conjI impI)
  assume bad: "(\<exists>s. Member_Tags m ''expect'' = Some s \<and> Atoi s = None)
           \<or> (\<exists>s. Member_Tags m ''raft_vsn'' = Some s \<and> Atoi s = None)"
  show "isNomadServer L m = (False, None)"
  proof (rule not_fst_rejected)
    from bad show "\<not> fst (isNomadServer L m)"
    proof
      assume "\<exists>s. Member_Tags m ''expect'' = Some s \<and> Atoi s = None"
      then obtain s where "Member_Tags m ''expect'' = Some s" and "Atoi s = None" by blast
      then show ?thesis by (simp add: fst_isNomadServer)
    next
      assume "\<exists>s. Member_Tags m ''raft_vsn'' = Some s \<and> Atoi s = None"
      then obtain s where "Member_Tags m ''raft_vsn'' = Some s" and "Atoi s = None" by blast
      then show ?thesis by (simp add: fst_isNomadServer)
    qed
  qed
next
  assume good: "\<not> ((\<exists>s. Member_Tags m ''expect'' = Some s \<and> Atoi s = None)
               \<or> (\<exists>s. Member_Tags m ''raft_vsn'' = Some s \<and> Atoi s = None))"
  then have e: "\<forall>s. Member_Tags m ''expect'' = Some s \<longrightarrow> Atoi s \<noteq> None"
    and r: "\<forall>s. Member_Tags m ''raft_vsn'' = Some s \<longrightarrow> Atoi s \<noteq> None"
    by simp_all
  have "fst (isNomadServer L m)"
    unfolding fst_isNomadServer using assms e r by (intro conjI)
  then obtain p where p: "isNomadServer L m = (True, Some p)"
    using fst_accepted by blast
  have "Expect p = 0" if "Member_Tags m ''expect'' = None"
    using accepted_expect [OF p] that by simp
  moreover have "RaftVersion p = 0" if "Member_Tags m ''raft_vsn'' = None"
    using accepted_raft_vsn [OF p] that by simp
  ultimately show "\<exists>p. isNomadServer L m = (True, Some p)
                   \<and> (Member_Tags m ''expect'' = None \<longrightarrow> Expect p = 0)
                   \<and> (Member_Tags m ''raft_vsn'' = None \<longrightarrow> RaftVersion p = 0)"
    using p by simp
qed

theorem isNomadServer_expect_raft_vsn_witness:
  "tag server_bad_expect ''role'' = ''nomad''
   \<and> Atoi (tag server_bad_expect ''port'') \<noteq> None
   \<and> NewVersion ref_library (tag server_bad_expect ''build'') \<noteq> None
   \<and> Atoi (tag server_bad_expect ''vsn'') \<noteq> None
   \<and> Member_Tags server_bad_expect ''expect'' = Some ''three'' \<and> Atoi ''three'' = None
   \<and> isNomadServer ref_library server_bad_expect = (False, None)
   \<and> tag server_rc1 ''role'' = ''nomad''
   \<and> Atoi (tag server_rc1 ''port'') \<noteq> None
   \<and> NewVersion ref_library (tag server_rc1 ''build'') \<noteq> None
   \<and> Atoi (tag server_rc1 ''vsn'') \<noteq> None
   \<and> Member_Tags server_rc1 ''expect'' = None
   \<and> Member_Tags server_rc1 ''raft_vsn'' = None
   \<and> fst (isNomadServer ref_library server_rc1)
   \<and> Expect (the (snd (isNomadServer ref_library server_rc1))) = 0
   \<and> RaftVersion (the (snd (isNomadServer ref_library server_rc1))) = 0"
proof -
  have b1: "tag server_bad_expect ''role'' = ''nomad''" by code_simp
  have b2: "Atoi (tag server_bad_expect ''port'') \<noteq> None" by code_simp
  have b3: "NewVersion ref_library (tag server_bad_expect ''build'') \<noteq> None" by code_simp
  have b4: "Atoi (tag server_bad_expect ''vsn'') \<noteq> None" by code_simp
  have b5: "Member_Tags server_bad_expect ''expect'' = Some ''three''" by code_simp
  have b6: "Atoi ''three'' = None" by code_simp
  have g1: "tag server_rc1 ''role'' = ''nomad''" by code_simp
  have g2: "Atoi (tag server_rc1 ''port'') \<noteq> None" by code_simp
  have g3: "NewVersion ref_library (tag server_rc1 ''build'') \<noteq> None" by code_simp
  have g4: "Atoi (tag server_rc1 ''vsn'') \<noteq> None" by code_simp
  have g5: "Member_Tags server_rc1 ''expect'' = None" by code_simp
  have g6: "Member_Tags server_rc1 ''raft_vsn'' = None" by code_simp
  from b5 b6 isNomadServer_expect_raft_vsn [OF b1 b2 b3 b4]
  have bad: "isNomadServer ref_library server_bad_expect = (False, None)" by blast
  from g5 g6 isNomadServer_expect_raft_vsn [OF g1 g2 g3 g4]
  obtain p where p: "isNomadServer ref_library server_rc1 = (True, Some p)"
    and "Expect p = 0" and "RaftVersion p = 0" by auto
  then have good: "fst (isNomadServer ref_library server_rc1)"
      "Expect (the (snd (isNomadServer ref_library server_rc1))) = 0"
      "RaftVersion (the (snd (isNomadServer ref_library server_rc1))) = 0"
    by simp_all
  from b1 b2 b3 b4 b5 b6 bad g1 g2 g3 g4 g5 g6 good show ?thesis by blast
qed

text \<open>
  C7. For every membership record that \<^verbatim>\<open>isNomadServer\<close> accepts, if the \<^verbatim>\<open>mvn\<close> tag is absent
  or does not parse as an integer, the descriptor's minor version is 0. The \<^verbatim>\<open>mvn\<close> tag never
  makes the classification fail: whatever the tag is set to, or when it is removed, the
  record is accepted exactly when it was before.
\<close>

theorem isNomadServer_mvn_lenient:
  "(\<forall>p. isNomadServer L m = (True, Some p) \<and>
         (Member_Tags m ''mvn'' = None \<or> Atoi (tag m ''mvn'') = None)
         \<longrightarrow> MinorVersion p = 0)
   \<and> (\<forall>x. fst (isNomadServer L (m\<lparr>Member_Tags := (Member_Tags m)(''mvn'' := x)\<rparr>))
            = fst (isNomadServer L m))"
proof (intro conjI allI impI)
  fix p
  assume a: "isNomadServer L m = (True, Some p) \<and>
         (Member_Tags m ''mvn'' = None \<or> Atoi (tag m ''mvn'') = None)"
  then have "Atoi (tag m ''mvn'') = None"
    using tag_absent [of m "''mvn''"] Atoi_empty by auto
  with a accepted_mvn [of L m p] show "MinorVersion p = 0" by simp
next
  fix x
  show "fst (isNomadServer L (m\<lparr>Member_Tags := (Member_Tags m)(''mvn'' := x)\<rparr>))
            = fst (isNomadServer L m)"
    unfolding fst_isNomadServer by (simp add: tag_update_other)
qed

theorem isNomadServer_mvn_lenient_witness:
  "fst (isNomadServer ref_library server_bad_mvn)
   \<and> Member_Tags server_bad_mvn ''mvn'' = Some ''one''
   \<and> Atoi (tag server_bad_mvn ''mvn'') = None
   \<and> MinorVersion (the (snd (isNomadServer ref_library server_bad_mvn))) = 0"
proof -
  have a: "fst (isNomadServer ref_library server_bad_mvn)" by code_simp
  have t: "Member_Tags server_bad_mvn ''mvn'' = Some ''one''" by code_simp
  have n: "Atoi (tag server_bad_mvn ''mvn'') = None" by code_simp
  from fst_accepted [OF a]
  obtain p where p: "isNomadServer ref_library server_bad_mvn = (True, Some p)" ..
  from p n isNomadServer_mvn_lenient [of ref_library server_bad_mvn]
  have "MinorVersion p = 0" by blast
  with p have "MinorVersion (the (snd (isNomadServer ref_library server_bad_mvn))) = 0"
    by simp
  with a t n show ?thesis by blast
qed

text \<open>
  C8. Take a library whose \<^verbatim>\<open>ParseIP\<close> returns nil for the empty string, as \<^verbatim>\<open>net.ParseIP\<close>
  does. For every membership record that \<^verbatim>\<open>isNomadServer\<close> accepts, if the \<^verbatim>\<open>rpc_addr\<close> tag
  is absent or does not parse as an IP literal, the IP of the descriptor's RPC address is the
  member's gossip address \<^verbatim>\<open>m.Addr\<close>. The \<^verbatim>\<open>rpc_addr\<close> tag never makes the classification
  fail: whatever the tag is set to, or when it is removed, the record is accepted exactly
  when it was before.
\<close>

theorem isNomadServer_rpc_addr_fallback:
  assumes "ParseIP L [] = None"
  shows "(\<forall>p. isNomadServer L m = (True, Some p) \<and>
              (Member_Tags m ''rpc_addr'' = None \<or> ParseIP L (tag m ''rpc_addr'') = None)
              \<longrightarrow> TCP_IP (RPCAddr p) = Member_Addr m)
       \<and> (\<forall>x. fst (isNomadServer L (m\<lparr>Member_Tags := (Member_Tags m)(''rpc_addr'' := x)\<rparr>))
                = fst (isNomadServer L m))"
proof (intro conjI allI impI)
  fix p
  assume a: "isNomadServer L m = (True, Some p) \<and>
              (Member_Tags m ''rpc_addr'' = None \<or> ParseIP L (tag m ''rpc_addr'') = None)"
  then have "ParseIP L (tag m ''rpc_addr'') = None"
    using tag_absent [of m "''rpc_addr''"] assms by auto
  moreover from a have "isNomadServer L m = (True, Some p)" by simp
  ultimately show "TCP_IP (RPCAddr p) = Member_Addr m"
    using accepted_RPCAddr [of L m p] by simp
next
  fix x
  show "fst (isNomadServer L (m\<lparr>Member_Tags := (Member_Tags m)(''rpc_addr'' := x)\<rparr>))
            = fst (isNomadServer L m)"
    unfolding fst_isNomadServer by (simp add: tag_update_other)
qed

theorem isNomadServer_rpc_addr_fallback_witness:
  "ParseIP ref_library [] = None
   \<and> fst (isNomadServer ref_library server_bad_rpc_addr)
   \<and> Member_Tags server_bad_rpc_addr ''rpc_addr'' = Some ''localhost''
   \<and> ParseIP ref_library (tag server_bad_rpc_addr ''rpc_addr'') = None
   \<and> TCP_IP (RPCAddr (the (snd (isNomadServer ref_library server_bad_rpc_addr))))
       = Member_Addr server_bad_rpc_addr
   \<and> fst (isNomadServer ref_library server_rc1)
   \<and> Member_Tags server_rc1 ''rpc_addr'' = None
   \<and> TCP_IP (RPCAddr (the (snd (isNomadServer ref_library server_rc1))))
       = Member_Addr server_rc1"
proof -
  have e: "ParseIP ref_library [] = None" by code_simp
  have a: "fst (isNomadServer ref_library server_bad_rpc_addr)" by code_simp
  have t: "Member_Tags server_bad_rpc_addr ''rpc_addr'' = Some ''localhost''" by code_simp
  have n: "ParseIP ref_library (tag server_bad_rpc_addr ''rpc_addr'') = None" by code_simp
  have b: "fst (isNomadServer ref_library server_rc1)" by code_simp
  have u: "Member_Tags server_rc1 ''rpc_addr'' = None" by code_simp
  from fst_accepted [OF a]
  obtain p where p: "isNomadServer ref_library server_bad_rpc_addr = (True, Some p)" ..
  from fst_accepted [OF b]
  obtain q where q: "isNomadServer ref_library server_rc1 = (True, Some q)" ..
  from p n isNomadServer_rpc_addr_fallback [OF e, of server_bad_rpc_addr]
  have "TCP_IP (RPCAddr p) = Member_Addr server_bad_rpc_addr" by simp
  with p have 1: "TCP_IP (RPCAddr (the (snd (isNomadServer ref_library server_bad_rpc_addr))))
       = Member_Addr server_bad_rpc_addr" by simp
  from q u isNomadServer_rpc_addr_fallback [OF e, of server_rc1]
  have "TCP_IP (RPCAddr q) = Member_Addr server_rc1" by simp
  with q have 2: "TCP_IP (RPCAddr (the (snd (isNomadServer ref_library server_rc1))))
       = Member_Addr server_rc1" by simp
  from e a t n b u 1 2 show ?thesis by simp
qed

text \<open>
  C10. For every membership record that \<^verbatim>\<open>isNomadServer\<close> accepts, the port of the
  descriptor's RPC address is the integer parsed from the \<^verbatim>\<open>port\<close> tag, and so are the port
  of its \<^verbatim>\<open>Addr\<close> and its \<^verbatim>\<open>Port\<close> field. The \<^verbatim>\<open>rpc_addr\<close> tag has no part in it: whatever
  that tag is set to, an accepted record's RPC address carries the same port.
\<close>

theorem isNomadServer_RPCAddr_port:
  "(\<forall>p. isNomadServer L m = (True, Some p) \<longrightarrow>
          Atoi (tag m ''port'') = Some (TCP_Port (RPCAddr p))
          \<and> TCP_Port (RPCAddr p) = Port p
          \<and> TCP_Port (Addr p) = TCP_Port (RPCAddr p))
   \<and> (\<forall>x p p'. isNomadServer L m = (True, Some p) \<and>
          isNomadServer L (m\<lparr>Member_Tags := (Member_Tags m)(''rpc_addr'' := x)\<rparr>) = (True, Some p')
          \<longrightarrow> TCP_Port (RPCAddr p') = TCP_Port (RPCAddr p))"
proof (intro conjI allI impI)
  fix p
  assume p: "isNomadServer L m = (True, Some p)"
  have r: "TCP_Port (RPCAddr p) = Port p"
    using accepted_RPCAddr [OF p] by simp
  have a: "TCP_Port (Addr p) = Port p"
    using accepted_Addr [OF p] by simp
  from r accepted_port [OF p] show "Atoi (tag m ''port'') = Some (TCP_Port (RPCAddr p))" by simp
  from r show "TCP_Port (RPCAddr p) = Port p" .
  from r a show "TCP_Port (Addr p) = TCP_Port (RPCAddr p)" by simp
next
  fix x p p'
  assume h: "isNomadServer L m = (True, Some p) \<and>
          isNomadServer L (m\<lparr>Member_Tags := (Member_Tags m)(''rpc_addr'' := x)\<rparr>) = (True, Some p')"
  then have p: "isNomadServer L m = (True, Some p)"
    and p': "isNomadServer L (m\<lparr>Member_Tags := (Member_Tags m)(''rpc_addr'' := x)\<rparr>) = (True, Some p')"
    by simp_all
  have "Some (Port p') = Some (Port p)"
    using accepted_port [OF p] accepted_port [OF p'] by (simp add: tag_update_other)
  then show "TCP_Port (RPCAddr p') = TCP_Port (RPCAddr p)"
    using accepted_RPCAddr [OF p] accepted_RPCAddr [OF p'] by simp
qed

theorem isNomadServer_RPCAddr_port_witness:
  "fst (isNomadServer ref_library server_rpc_addr)
   \<and> Member_Tags server_rpc_addr ''rpc_addr'' = Some ''192.168.1.9''
   \<and> Atoi (tag server_rpc_addr ''port'') = Some 4647
   \<and> TCP_IP (RPCAddr (the (snd (isNomadServer ref_library server_rpc_addr))))
       \<noteq> Member_Addr server_rpc_addr
   \<and> TCP_Port (RPCAddr (the (snd (isNomadServer ref_library server_rpc_addr)))) = 4647
   \<and> TCP_Port (Addr (the (snd (isNomadServer ref_library server_rpc_addr)))) = 4647"
proof -
  have a: "fst (isNomadServer ref_library server_rpc_addr)" by code_simp
  have t: "Member_Tags server_rpc_addr ''rpc_addr'' = Some ''192.168.1.9''" by code_simp
  have v: "Atoi (tag server_rpc_addr ''port'') = Some 4647" by code_simp
  have d: "TCP_IP (RPCAddr (the (snd (isNomadServer ref_library server_rpc_addr))))
       \<noteq> Member_Addr server_rpc_addr" by code_simp
  from fst_accepted [OF a]
  obtain p where p: "isNomadServer ref_library server_rpc_addr = (True, Some p)" ..
  from p v isNomadServer_RPCAddr_port [of ref_library server_rpc_addr]
  have "TCP_Port (RPCAddr p) = 4647 \<and> TCP_Port (Addr p) = 4647" by simp
  with p have 1: "TCP_Port (RPCAddr (the (snd (isNomadServer ref_library server_rpc_addr)))) = 4647"
    and 2: "TCP_Port (Addr (the (snd (isNomadServer ref_library server_rpc_addr)))) = 4647"
    by simp_all
  from a t v d 1 2 show ?thesis by simp
qed

subsection \<open>The node capability gate\<close>

text \<open>
  C3. Let the package variable \<^verbatim>\<open>minNodeVersionSupportingRPC\<close> hold its initial value, the
  version parsed from \<^verbatim>\<open>0.8.0-rc1\<close>. For every node, \<^verbatim>\<open>nodeSupportsRpc\<close> returns
  \<^verbatim>\<open>ErrUnknownNomadVersion\<close> when the attribute \<^verbatim>\<open>nomad.version\<close> is absent or its value does
  not parse as a version; it returns \<^verbatim>\<open>ErrNodeLacksRpc\<close> when the parsed version is less than
  the threshold; and it returns nil when the parsed version is not less than the threshold.
\<close>

theorem nodeSupportsRpc_cases:
  assumes "minNodeVersionSupportingRPC L = Some minNodeVersion"
  shows "(Attributes node ''nomad.version'' = None
            \<or> (\<exists>raw. Attributes node ''nomad.version'' = Some raw \<and> NewVersion L raw = None)
          \<longrightarrow> nodeSupportsRpc L minNodeVersion node = Some ErrUnknownNomadVersion)
       \<and> (\<forall>raw nodeVer. Attributes node ''nomad.version'' = Some raw
              \<and> NewVersion L raw = Some nodeVer \<and> LessThan L nodeVer minNodeVersion
          \<longrightarrow> nodeSupportsRpc L minNodeVersion node = Some ErrNodeLacksRpc)
       \<and> (\<forall>raw nodeVer. Attributes node ''nomad.version'' = Some raw
              \<and> NewVersion L raw = Some nodeVer \<and> \<not> LessThan L nodeVer minNodeVersion
          \<longrightarrow> nodeSupportsRpc L minNodeVersion node = None)"
proof (intro conjI allI impI)
  assume "Attributes node ''nomad.version'' = None
            \<or> (\<exists>raw. Attributes node ''nomad.version'' = Some raw \<and> NewVersion L raw = None)"
  then show "nodeSupportsRpc L minNodeVersion node = Some ErrUnknownNomadVersion"
  proof
    assume "Attributes node ''nomad.version'' = None"
    then show ?thesis by (simp add: nodeSupportsRpc_def)
  next
    assume "\<exists>raw. Attributes node ''nomad.version'' = Some raw \<and> NewVersion L raw = None"
    then obtain raw where "Attributes node ''nomad.version'' = Some raw"
      and "NewVersion L raw = None" by auto
    then show ?thesis by (simp add: nodeSupportsRpc_def)
  qed
next
  fix raw nodeVer
  assume "Attributes node ''nomad.version'' = Some raw
              \<and> NewVersion L raw = Some nodeVer \<and> LessThan L nodeVer minNodeVersion"
  then show "nodeSupportsRpc L minNodeVersion node = Some ErrNodeLacksRpc"
    by (simp add: nodeSupportsRpc_def)
next
  fix raw nodeVer
  assume "Attributes node ''nomad.version'' = Some raw
              \<and> NewVersion L raw = Some nodeVer \<and> \<not> LessThan L nodeVer minNodeVersion"
  then show "nodeSupportsRpc L minNodeVersion node = None"
    by (simp add: nodeSupportsRpc_def)
qed

theorem nodeSupportsRpc_cases_witness:
  "minNodeVersionSupportingRPC ref_library = Some v_0_8_0_rc1
   \<and> Attributes node_0_7_1 ''nomad.version'' = Some ''0.7.1''
   \<and> NewVersion ref_library ''0.7.1'' = Some \<lparr>segments = [0, 7, 1], pre = [], metadata = []\<rparr>
   \<and> LessThan ref_library \<lparr>segments = [0, 7, 1], pre = [], metadata = []\<rparr> v_0_8_0_rc1
   \<and> nodeSupportsRpc ref_library v_0_8_0_rc1 node_0_7_1 = Some ErrNodeLacksRpc
   \<and> Attributes node_0_8_4 ''nomad.version'' = Some ''0.8.4''
   \<and> NewVersion ref_library ''0.8.4'' = Some \<lparr>segments = [0, 8, 4], pre = [], metadata = []\<rparr>
   \<and> \<not> LessThan ref_library \<lparr>segments = [0, 8, 4], pre = [], metadata = []\<rparr> v_0_8_0_rc1
   \<and> nodeSupportsRpc ref_library v_0_8_0_rc1 node_0_8_4 = None
   \<and> Attributes \<lparr>Node_ID = ''n3'', Attributes = Map.empty\<rparr> ''nomad.version'' = None
   \<and> nodeSupportsRpc ref_library v_0_8_0_rc1 \<lparr>Node_ID = ''n3'', Attributes = Map.empty\<rparr>
       = Some ErrUnknownNomadVersion"
proof -
  have m: "minNodeVersionSupportingRPC ref_library = Some v_0_8_0_rc1" by code_simp
  have a1: "Attributes node_0_7_1 ''nomad.version'' = Some ''0.7.1''" by code_simp
  have a2: "NewVersion ref_library ''0.7.1'' = Some \<lparr>segments = [0, 7, 1], pre = [], metadata = []\<rparr>"
    by code_simp
  have a3: "LessThan ref_library \<lparr>segments = [0, 7, 1], pre = [], metadata = []\<rparr> v_0_8_0_rc1"
    by code_simp
  have b1: "Attributes node_0_8_4 ''nomad.version'' = Some ''0.8.4''" by code_simp
  have b2: "NewVersion ref_library ''0.8.4'' = Some \<lparr>segments = [0, 8, 4], pre = [], metadata = []\<rparr>"
    by code_simp
  have b3: "\<not> LessThan ref_library \<lparr>segments = [0, 8, 4], pre = [], metadata = []\<rparr> v_0_8_0_rc1"
    by code_simp
  have c1: "Attributes \<lparr>Node_ID = ''n3'', Attributes = Map.empty\<rparr> ''nomad.version'' = None"
    by simp
  from a1 a2 a3 nodeSupportsRpc_cases [OF m, of node_0_7_1]
  have 1: "nodeSupportsRpc ref_library v_0_8_0_rc1 node_0_7_1 = Some ErrNodeLacksRpc" by simp
  from b1 b2 b3 nodeSupportsRpc_cases [OF m, of node_0_8_4]
  have 2: "nodeSupportsRpc ref_library v_0_8_0_rc1 node_0_8_4 = None" by simp
  from c1 nodeSupportsRpc_cases [OF m, of "\<lparr>Node_ID = ''n3'', Attributes = Map.empty\<rparr>"]
  have 3: "nodeSupportsRpc ref_library v_0_8_0_rc1 \<lparr>Node_ID = ''n3'', Attributes = Map.empty\<rparr>
       = Some ErrUnknownNomadVersion" by simp
  from m a1 a2 a3 b1 b2 b3 c1 1 2 3 show ?thesis by simp
qed

text \<open>
  C4. For every snapshot and node ID for which the lookup returns no error: when the lookup
  finds no node, \<^verbatim>\<open>getNodeForRpc\<close> returns no node and the error \<^verbatim>\<open>Unknown node\<close> carrying
  that node ID; when it finds a node, \<^verbatim>\<open>getNodeForRpc\<close> returns what \<^verbatim>\<open>nodeSupportsRpc\<close> says
  of that node: no node and the gate's error when the gate fails, the node and no error when
  the gate succeeds.
\<close>

theorem getNodeForRpc_unknown_or_gate:
  assumes "snd (NodeByID snap nodeID) = None"
  shows "(fst (NodeByID snap nodeID) = None \<longrightarrow>
            getNodeForRpc L minNodeVersion snap nodeID = (None, Some (Errorf_Unknown_node nodeID)))
       \<and> (\<forall>n e. fst (NodeByID snap nodeID) = Some n \<and> nodeSupportsRpc L minNodeVersion n = Some e
            \<longrightarrow> getNodeForRpc L minNodeVersion snap nodeID = (None, Some e))
       \<and> (\<forall>n. fst (NodeByID snap nodeID) = Some n \<and> nodeSupportsRpc L minNodeVersion n = None
            \<longrightarrow> getNodeForRpc L minNodeVersion snap nodeID = (Some n, None))"
proof -
  obtain node err where r: "NodeByID snap nodeID = (node, err)" by (cases "NodeByID snap nodeID")
  with assms have err: "err = None" by simp
  show ?thesis
    using r err by (simp add: getNodeForRpc_def)
qed

theorem getNodeForRpc_unknown_or_gate_witness:
  "snd (NodeByID snap_two_nodes ''n9'') = None
   \<and> fst (NodeByID snap_two_nodes ''n9'') = None
   \<and> getNodeForRpc ref_library v_0_8_0_rc1 snap_two_nodes ''n9''
       = (None, Some (Errorf_Unknown_node ''n9''))
   \<and> snd (NodeByID snap_two_nodes ''n1'') = None
   \<and> fst (NodeByID snap_two_nodes ''n1'') = Some node_0_7_1
   \<and> nodeSupportsRpc ref_library v_0_8_0_rc1 node_0_7_1 = Some ErrNodeLacksRpc
   \<and> getNodeForRpc ref_library v_0_8_0_rc1 snap_two_nodes ''n1'' = (None, Some ErrNodeLacksRpc)
   \<and> snd (NodeByID snap_two_nodes ''n2'') = None
   \<and> fst (NodeByID snap_two_nodes ''n2'') = Some node_0_8_4
   \<and> nodeSupportsRpc ref_library v_0_8_0_rc1 node_0_8_4 = None
   \<and> getNodeForRpc ref_library v_0_8_0_rc1 snap_two_nodes ''n2'' = (Some node_0_8_4, None)"
proof -
  have u1: "snd (NodeByID snap_two_nodes ''n9'') = None" by code_simp
  have u2: "fst (NodeByID snap_two_nodes ''n9'') = None" by code_simp
  have o1: "snd (NodeByID snap_two_nodes ''n1'') = None" by code_simp
  have o2: "fst (NodeByID snap_two_nodes ''n1'') = Some node_0_7_1"
    by (simp add: snap_two_nodes_def)
  have o3: "nodeSupportsRpc ref_library v_0_8_0_rc1 node_0_7_1 = Some ErrNodeLacksRpc" by code_simp
  have g1: "snd (NodeByID snap_two_nodes ''n2'') = None" by code_simp
  have g2: "fst (NodeByID snap_two_nodes ''n2'') = Some node_0_8_4"
    by (simp add: snap_two_nodes_def)
  have g3: "nodeSupportsRpc ref_library v_0_8_0_rc1 node_0_8_4 = None" by code_simp
  from u2 getNodeForRpc_unknown_or_gate [OF u1, of ref_library v_0_8_0_rc1]
  have 1: "getNodeForRpc ref_library v_0_8_0_rc1 snap_two_nodes ''n9''
       = (None, Some (Errorf_Unknown_node ''n9''))" by simp
  from o2 o3 getNodeForRpc_unknown_or_gate [OF o1, of ref_library v_0_8_0_rc1]
  have 2: "getNodeForRpc ref_library v_0_8_0_rc1 snap_two_nodes ''n1'' = (None, Some ErrNodeLacksRpc)"
    by simp
  from g2 g3 getNodeForRpc_unknown_or_gate [OF g1, of ref_library v_0_8_0_rc1]
  have 3: "getNodeForRpc ref_library v_0_8_0_rc1 snap_two_nodes ''n2'' = (Some node_0_8_4, None)"
    by simp
  from u1 u2 o1 o2 o3 g1 g2 g3 1 2 3 show ?thesis by simp
qed

text \<open>
  C9. For every snapshot and node ID, when the lookup returns an error, \<^verbatim>\<open>getNodeForRpc\<close>
  returns no node and that same error, whatever node the lookup returned beside it. The
  result is the same for every version library and every threshold, which are all that
  \<^verbatim>\<open>nodeSupportsRpc\<close> could add: the gate has no part in this result.
\<close>

theorem getNodeForRpc_lookup_error:
  assumes "snd (NodeByID snap nodeID) = Some err"
  shows "getNodeForRpc L minNodeVersion snap nodeID = (None, Some err)"
proof -
  obtain node e where r: "NodeByID snap nodeID = (node, e)" by (cases "NodeByID snap nodeID")
  with assms have "e = Some err" by simp
  with r show ?thesis by (simp add: getNodeForRpc_def)
qed

theorem getNodeForRpc_lookup_error_witness:
  "snd (NodeByID snap_failing ''n1'') = Some (OtherError ''node lookup failed'')
   \<and> getNodeForRpc ref_library v_0_8_0_rc1 snap_failing ''n1''
       = (None, Some (OtherError ''node lookup failed''))"
proof -
  have e: "snd (NodeByID snap_failing ''n1'') = Some (OtherError ''node lookup failed'')"
    by code_simp
  from getNodeForRpc_lookup_error [OF e, of ref_library v_0_8_0_rc1] e
  show ?thesis by simp
qed

end
